theory Spec2Isabelle
  imports Complex_Main
begin

unbundle bit_operations_syntax

section \<open>Values, exceptions and register descriptors\<close>

text \<open>
  A Python exception is represented by the name of its class, which is all that the
  program ever inspects (\<^verbatim>\<open>type(e).__name__\<close>). Only subclasses of \<^verbatim>\<open>Exception\<close> are
  meant: they are what \<^verbatim>\<open>except Exception\<close> catches.
\<close>

datatype py_exc = Exc (exc_name: string)

definition KeyError :: py_exc where "KeyError = Exc ''KeyError''"
definition IndexError :: py_exc where "IndexError = Exc ''IndexError''"
definition ValueError :: py_exc where "ValueError = Exc ''ValueError''"
definition AttributeError :: py_exc where "AttributeError = Exc ''AttributeError''"

text \<open>
  The values stored in the acquisition mapping: \<^verbatim>\<open>bool\<close>, \<^verbatim>\<open>int\<close>, \<^verbatim>\<open>float\<close>, \<^verbatim>\<open>str\<close> and a
  list of labels. Floats are idealised as reals. The markers \<^verbatim>\<open>'UNSUPPORTED'\<close> and
  \<^verbatim>\<open>'ERR:<class>'\<close> are ordinary strings, as in the program.
\<close>

datatype pyval = VBool bool | VInt int | VFloat real | VStr string | VList "string list"

text \<open>
  A register descriptor is a JSON object. The key \<^verbatim>\<open>name\<close> is the key of the output
  mapping; every other key may be absent, which the program either replaces by a default
  (\<^verbatim>\<open>r.get\<close>) or answers with \<^verbatim>\<open>KeyError\<close> (\<^verbatim>\<open>r[...]\<close>). The symbol map is the list of
  the items of the JSON object \<^verbatim>\<open>map\<close>, in insertion order.
\<close>

record reg =
  r_name :: string
  r_type :: "string option"
  r_address :: "int option"
  r_function :: "int option"
  r_scale :: "real option"
  r_words :: "int option"
  r_map :: "(string \<times> string) list option"
  r_min :: "real option"
  r_max :: "real option"

text \<open>
  \<^verbatim>\<open>RTUClient\<close>: the two methods of the transport client. Each call is serial I/O, so it
  takes the state of the outside world and returns the next one beside its result, an
  exception (\<open>Inl\<close>) or a value (\<open>Inr\<close>).
\<close>

record 'w rtu_client =
  read_regs :: "int \<Rightarrow> int \<Rightarrow> int \<Rightarrow> 'w \<Rightarrow> (py_exc + int list) \<times> 'w"
  write_single :: "int \<Rightarrow> int \<Rightarrow> int \<Rightarrow> 'w \<Rightarrow> (py_exc + unit) \<times> 'w"

section \<open>Python built-ins used by the codec\<close>

text \<open>\<^verbatim>\<open>xs[i]\<close> for a non-negative constant index.\<close>

definition getitem :: "'a list \<Rightarrow> nat \<Rightarrow> py_exc + 'a" where
  "getitem xs i = (if i < length xs then Inr (xs ! i) else Inl IndexError)"

text \<open>\<^verbatim>\<open>str(n)\<close> for an integer.\<close>

fun str_nat :: "nat \<Rightarrow> string" where
  "str_nat n =
     (if n < 10 then [''0123456789'' ! n]
      else str_nat (n div 10) @ [''0123456789'' ! (n mod 10)])"

declare str_nat.simps [simp del]

definition str_int :: "int \<Rightarrow> string" where
  "str_int i = (if i < 0 then CHR ''-'' # str_nat (nat (- i)) else str_nat (nat i))"

text \<open>\<^verbatim>\<open>sep.join(parts)\<close>.\<close>

fun join :: "string \<Rightarrow> string list \<Rightarrow> string" where
  "join sep [] = []"
| "join sep [x] = x"
| "join sep (x # y # ys) = x @ sep @ join sep (y # ys)"

text \<open>
  The white space of \<^verbatim>\<open>str.strip()\<close> and of \<^verbatim>\<open>int(str)\<close> among the ASCII characters:
  codes 9 to 13, 28 to 31 and 32.
\<close>

definition is_space :: "char \<Rightarrow> bool" where
  "is_space c = (let n = (of_char c :: nat) in (9 \<le> n \<and> n \<le> 13) \<or> (28 \<le> n \<and> n \<le> 31) \<or> n = 32)"

definition strip :: "string \<Rightarrow> string" where
  "strip s = rev (dropWhile is_space (rev (dropWhile is_space s)))"

definition rstrip_nul :: "string \<Rightarrow> string" where
  "rstrip_nul s = rev (dropWhile (\<lambda>c. c = CHR 0x00) (rev s))"

text \<open>
  \<^verbatim>\<open>int(s)\<close> for a string, base 10, on ASCII input: surrounding white space, an optional
  sign, then digits, where single underscores may separate digits. Anything else is
  \<^verbatim>\<open>ValueError\<close>.
\<close>

definition is_digit :: "char \<Rightarrow> bool" where
  "is_digit c = (let n = (of_char c :: nat) in 48 \<le> n \<and> n \<le> 57)"

fun digits_value :: "nat \<Rightarrow> string \<Rightarrow> nat option" where
  "digits_value acc [] = Some acc"
| "digits_value acc [c] = (if is_digit c then Some (acc * 10 + (of_char c - 48)) else None)"
| "digits_value acc (c # d # cs) =
     (if is_digit c then
        (if d = CHR ''_'' then
           (case cs of [] \<Rightarrow> None
            | e # es \<Rightarrow> if is_digit e then digits_value (acc * 10 + (of_char c - 48)) cs else None)
         else digits_value (acc * 10 + (of_char c - 48)) (d # cs))
      else None)"

definition py_int :: "string \<Rightarrow> py_exc + int" where
  "py_int s =
     (let t = strip s;
          (neg, body) = (case t of [] \<Rightarrow> (False, [])
                         | c # cs \<Rightarrow> if c = CHR ''-'' then (True, cs)
                                    else if c = CHR ''+'' then (False, cs) else (False, t))
      in if body = [] then Inl ValueError
         else (case digits_value 0 body of
                 None \<Rightarrow> Inl ValueError
               | Some n \<Rightarrow> Inr (if neg then - int n else int n)))"



definition startswith :: "string \<Rightarrow> string \<Rightarrow> bool" where
  "startswith s p = (take (length p) s = p)"


text \<open>
  A Python \<^verbatim>\<open>dict\<close> keeps its keys in insertion order. Assigning to a key that is
  present replaces the value where it stands; assigning to a new key appends.
\<close>

fun dict_set :: "('k \<times> 'v) list \<Rightarrow> 'k \<Rightarrow> 'v \<Rightarrow> ('k \<times> 'v) list" where
  "dict_set [] k v = [(k, v)]"
| "dict_set ((k', v') # d) k v = (if k' = k then (k, v) # d else (k', v') # dict_set d k v)"

definition dict_get :: "('k \<times> 'v) list \<Rightarrow> 'k \<Rightarrow> 'v option" where
  "dict_get d k = map_of d k"

section \<open>The codec of \<^verbatim>\<open>modbus_client.py\<close>\<close>

definition hi_byte :: "int \<Rightarrow> int" where
  "hi_byte w = drop_bit 8 w AND 0xFF"

definition lo_byte :: "int \<Rightarrow> int" where
  "lo_byte w = w AND 0xFF"

text \<open>
  \<^verbatim>\<open>words_to_ascii\<close>: two bytes per word, high byte first; \<^verbatim>\<open>decode('ascii',
  errors='ignore')\<close> drops the bytes from 128 on.
\<close>

definition words_to_ascii :: "int list \<Rightarrow> string" where
  "words_to_ascii words =
     (let bs = concat (map (\<lambda>w. [hi_byte w, lo_byte w]) words)
      in strip (rstrip_nul (map char_of (filter (\<lambda>b. b < 128) bs))))"

definition words_to_ip :: "int list \<Rightarrow> string" where
  "words_to_ip words =
     (let b = concat (map (\<lambda>w. [hi_byte w, lo_byte w]) words)
      in join ''.'' (map str_int b))"

text \<open>\<^verbatim>\<open>f"{x:02X}"\<close> for a byte \<open>x\<close>: two upper-case hexadecimal digits.\<close>

definition hex02X :: "int \<Rightarrow> string" where
  "hex02X x = [''0123456789ABCDEF'' ! nat (x div 16), ''0123456789ABCDEF'' ! nat (x mod 16)]"

text \<open>The \<^verbatim>\<open>mac48\<close> branch of \<^verbatim>\<open>read_all\<close>.\<close>

definition words_to_mac :: "int list \<Rightarrow> string" where
  "words_to_mac words =
     (let b = map hi_byte words @ map lo_byte words
      in join '':'' (map hex02X (take 6 b)))"

text \<open>
  The loop over the items of a \<^verbatim>\<open>bitmask16\<close> map: \<^verbatim>\<open>int(bit_str)\<close> may raise, which
  ends the loop before anything is stored.
\<close>

fun bitmask_flags :: "int \<Rightarrow> (string \<times> string) list \<Rightarrow> py_exc + string list" where
  "bitmask_flags w [] = Inr []"
| "bitmask_flags w ((bit_str, label) # items) =
     (case py_int bit_str of
        Inl e \<Rightarrow> Inl e
      | Inr bit_mask \<Rightarrow>
          (case bitmask_flags w items of
             Inl e \<Rightarrow> Inl e
           | Inr flags \<Rightarrow> Inr (if w AND bit_mask \<noteq> 0 then label # flags else flags)))"

text \<open>The value stored for a register of the 16-bit family, from its word \<open>w\<close>.\<close>

definition decode16 :: "string \<Rightarrow> reg \<Rightarrow> real \<Rightarrow> int \<Rightarrow> py_exc + pyval" where
  "decode16 t r scale w =
     (if t = ''bool16'' then Inr (VBool (w \<noteq> 0))
      else if t = ''enum16'' \<and> r_map r \<noteq> None then
        (case map_of (the (r_map r)) (str_int w) of
           Some label \<Rightarrow> Inr (VStr label)
         | None \<Rightarrow> Inr (VInt w))
      else if t = ''bitmask16'' \<and> r_map r \<noteq> None then
        (case bitmask_flags w (the (r_map r)) of
           Inl e \<Rightarrow> Inl e
         | Inr flags \<Rightarrow> Inr (VList flags))
      else Inr (VFloat (of_int w * scale)))"

text \<open>The value stored for \<^verbatim>\<open>uint32\<close> and \<^verbatim>\<open>int32\<close>, from the words read.\<close>

definition decode32 :: "string \<Rightarrow> string \<Rightarrow> real \<Rightarrow> int list \<Rightarrow> py_exc + pyval" where
  "decode32 t endianness scale words =
     (let be = (endianness = ''big'')
      in case getitem words 0 of
           Inl e \<Rightarrow> Inl e
         | Inr w0 \<Rightarrow>
             (case getitem words 1 of
                Inl e \<Rightarrow> Inl e
              | Inr w1 \<Rightarrow>
                  (let val = (if be then push_bit 16 w0 OR w1 else push_bit 16 w1 OR w0);
                       val' = (if t = ''int32'' \<and> val AND 0x80000000 \<noteq> 0
                               then - ((NOT val AND 0xFFFFFFFF) + 1) else val)
                   in Inr (VFloat (of_int val' * scale)))))"

text \<open>
  The body of the \<^verbatim>\<open>try\<close> statement of \<^verbatim>\<open>read_all\<close> for one descriptor: the value to
  store under the descriptor's name, or the exception raised on the way.
\<close>

definition read_reg ::
  "'w rtu_client \<Rightarrow> reg \<Rightarrow> string \<Rightarrow> 'w \<Rightarrow> (py_exc + pyval) \<times> 'w" where
  "read_reg cli r endianness w =
     (case r_type r of
        None \<Rightarrow> (Inl KeyError, w)
      | Some t \<Rightarrow>
     (case r_address r of
        None \<Rightarrow> (Inl KeyError, w)
      | Some addr \<Rightarrow>
     (let fn = (case r_function r of None \<Rightarrow> 3 | Some f \<Rightarrow> f);
          scale = (case r_scale r of None \<Rightarrow> 1 | Some s \<Rightarrow> s)
      in if t \<in> set [''uint16'', ''int16'', ''enum16'', ''bool16'', ''command16'', ''bitmask16''] then
           (case read_regs cli addr 1 fn w of
              (Inl e, w') \<Rightarrow> (Inl e, w')
            | (Inr ws, w') \<Rightarrow>
                (case getitem ws 0 of
                   Inl e \<Rightarrow> (Inl e, w')
                 | Inr wd \<Rightarrow> (decode16 t r scale wd, w')))
         else if t \<in> set [''uint32'', ''int32'', ''ip32'', ''mac48'', ''ascii''] then
           (if t = ''ascii'' then
              (case read_regs cli addr (case r_words r of None \<Rightarrow> 1 | Some n \<Rightarrow> n) fn w of
                 (Inl e, w') \<Rightarrow> (Inl e, w')
               | (Inr ws, w') \<Rightarrow> (Inr (VStr (words_to_ascii ws)), w'))
            else
              (let count = (if t = ''mac48'' then 3 else 2)
               in case read_regs cli addr count fn w of
                    (Inl e, w') \<Rightarrow> (Inl e, w')
                  | (Inr ws, w') \<Rightarrow>
                      (if t = ''ip32'' then (Inr (VStr (words_to_ip ws)), w')
                       else if t = ''mac48'' then (Inr (VStr (words_to_mac ws)), w')
                       else (decode32 t endianness scale ws, w'))))
         else (Inr (VStr ''UNSUPPORTED''), w))))"

text \<open>The value that the \<^verbatim>\<open>except\<close> clause stores: \<^verbatim>\<open>f'ERR:{type(e).__name__}'\<close>.\<close>

definition err_marker :: "py_exc \<Rightarrow> pyval" where
  "err_marker e = VStr (''ERR:'' @ exc_name e)"

definition entry_of :: "py_exc + pyval \<Rightarrow> pyval" where
  "entry_of res = (case res of Inl e \<Rightarrow> err_marker e | Inr v \<Rightarrow> v)"

text \<open>
  The \<^verbatim>\<open>for\<close> loop of \<^verbatim>\<open>read_all\<close>, with the dictionary \<open>out\<close> built so far, and
  \<^verbatim>\<open>read_all\<close> itself, which starts it on the empty dictionary.
\<close>

fun read_all_loop ::
  "'w rtu_client \<Rightarrow> string \<Rightarrow> reg list \<Rightarrow> (string \<times> pyval) list \<Rightarrow> 'w
     \<Rightarrow> (string \<times> pyval) list \<times> 'w" where
  "read_all_loop cli endianness [] out w = (out, w)"
| "read_all_loop cli endianness (r # regs) out w =
     (case read_reg cli r endianness w of
        (res, w') \<Rightarrow> read_all_loop cli endianness regs (dict_set out (r_name r) (entry_of res)) w')"

definition read_all ::
  "'w rtu_client \<Rightarrow> reg list \<Rightarrow> string \<Rightarrow> 'w \<Rightarrow> (string \<times> pyval) list \<times> 'w" where
  "read_all cli regs endianness w = read_all_loop cli endianness regs [] w"

section \<open>The acquisition function of \<^verbatim>\<open>app.py\<close>\<close>

text \<open>
  \<^verbatim>\<open>app.py\<close> has its own \<^verbatim>\<open>read_all\<close>, with its own copies of \<^verbatim>\<open>words_to_ascii\<close> and
  \<^verbatim>\<open>words_to_ip\<close>, which are the same text as those of \<^verbatim>\<open>modbus_client.py\<close>.
\<close>

definition app_decode16 :: "string \<Rightarrow> reg \<Rightarrow> real \<Rightarrow> int \<Rightarrow> py_exc + pyval" where
  "app_decode16 t r scale w =
     (if t = ''bool16'' then Inr (VBool (w \<noteq> 0))
      else if t = ''enum16'' \<and> r_map r \<noteq> None then
        (case map_of (the (r_map r)) (str_int w) of
           Some label \<Rightarrow> Inr (VStr label)
         | None \<Rightarrow> Inr (VInt w))
      else Inr (VFloat (of_int w * scale)))"

definition app_read_reg ::
  "'w rtu_client \<Rightarrow> reg \<Rightarrow> string \<Rightarrow> 'w \<Rightarrow> (py_exc + pyval) \<times> 'w" where
  "app_read_reg cli r endianness w =
     (case r_type r of
        None \<Rightarrow> (Inl KeyError, w)
      | Some t \<Rightarrow>
     (case r_address r of
        None \<Rightarrow> (Inl KeyError, w)
      | Some addr \<Rightarrow>
     (let fn = (case r_function r of None \<Rightarrow> 3 | Some f \<Rightarrow> f);
          scale = (case r_scale r of None \<Rightarrow> 1 | Some s \<Rightarrow> s)
      in if t \<in> set [''uint16'', ''int16'', ''enum16'', ''bool16'', ''command16''] then
           (case read_regs cli addr 1 fn w of
              (Inl e, w') \<Rightarrow> (Inl e, w')
            | (Inr ws, w') \<Rightarrow>
                (case getitem ws 0 of
                   Inl e \<Rightarrow> (Inl e, w')
                 | Inr wd \<Rightarrow> (app_decode16 t r scale wd, w')))
         else if t \<in> set [''uint32'', ''int32'', ''ip32''] then
           (case read_regs cli addr 2 fn w of
              (Inl e, w') \<Rightarrow> (Inl e, w')
            | (Inr ws, w') \<Rightarrow>
                (if t = ''ip32'' then (Inr (VStr (words_to_ip ws)), w')
                 else (decode32 t endianness scale ws, w')))
         else if t = ''ascii'' then
           (case read_regs cli addr (case r_words r of None \<Rightarrow> 1 | Some n \<Rightarrow> n) fn w of
              (Inl e, w') \<Rightarrow> (Inl e, w')
            | (Inr ws, w') \<Rightarrow> (Inr (VStr (words_to_ascii ws)), w'))
         else (Inr (VStr ''UNSUPPORTED''), w))))"

fun app_read_all_loop ::
  "'w rtu_client \<Rightarrow> string \<Rightarrow> reg list \<Rightarrow> (string \<times> pyval) list \<Rightarrow> 'w
     \<Rightarrow> (string \<times> pyval) list \<times> 'w" where
  "app_read_all_loop cli endianness [] out w = (out, w)"
| "app_read_all_loop cli endianness (r # regs) out w =
     (case app_read_reg cli r endianness w of
        (res, w') \<Rightarrow>
          app_read_all_loop cli endianness regs (dict_set out (r_name r) (entry_of res)) w')"

definition app_read_all ::
  "'w rtu_client \<Rightarrow> reg list \<Rightarrow> string \<Rightarrow> 'w \<Rightarrow> (string \<times> pyval) list \<times> 'w" where
  "app_read_all cli regs endianness w = app_read_all_loop cli endianness regs [] w"

section \<open>The write path\<close>




text \<open>
  The attribute \<^verbatim>\<open>self.cli\<close> of the application is \<^verbatim>\<open>None\<close> while no device is connected.
  A method call on \<^verbatim>\<open>None\<close> raises \<^verbatim>\<open>AttributeError\<close>.
\<close>

definition none_client :: "'w rtu_client" where
  "none_client =
     \<lparr>read_regs = (\<lambda>addr count fn w. (Inl AttributeError, w)),
      write_single = (\<lambda>addr val fn w. (Inl AttributeError, w))\<rparr>"

definition the_client :: "'w rtu_client option \<Rightarrow> 'w rtu_client" where
  "the_client c = (case c of None \<Rightarrow> none_client | Some cli \<Rightarrow> cli)"




section \<open>Discovery\<close>

definition COMMON_BAUDS :: "int list" where
  "COMMON_BAUDS = [115200, 57600, 38400, 19200, 9600]"

definition COMMON_PARITIES :: "string list" where
  "COMMON_PARITIES = [''N'']"

text \<open>
  The configuration read from \<^verbatim>\<open>registers.json\<close>, and the constructor \<^verbatim>\<open>RTUClient(port,
  baudrate, slave_id, parity)\<close>, which opens a serial port and may raise.
\<close>

record cfg =
  cfg_slave_id :: int
  cfg_endianness :: string
  cfg_probe :: "reg option"
  cfg_registers :: "reg list"

type_synonym 'w rtu_ctor =
  "string \<Rightarrow> int \<Rightarrow> int \<Rightarrow> string \<Rightarrow> 'w \<Rightarrow> (py_exc + 'w rtu_client) \<times> 'w"

definition is_err_value :: "pyval option \<Rightarrow> bool" where
  "is_err_value val = (case val of Some (VStr s) \<Rightarrow> startswith s ''ERR:'' | _ \<Rightarrow> False)"

definition probe_once ::
  "'w rtu_ctor \<Rightarrow> string \<Rightarrow> int \<Rightarrow> string \<Rightarrow> int \<Rightarrow> string \<Rightarrow> reg \<Rightarrow> 'w \<Rightarrow> bool \<times> 'w" where
  "probe_once RTUClient port baud parity slave_id endianness probe_reg w =
     (case RTUClient port baud slave_id parity w of
        (Inl e, w') \<Rightarrow> (False, w')
      | (Inr cli, w') \<Rightarrow>
          (case read_all cli [probe_reg] endianness w' of
             (data, w'') \<Rightarrow> (\<not> is_err_value (dict_get data (r_name probe_reg)), w'')))"

text \<open>
  The three nested \<^verbatim>\<open>for\<close> loops of \<^verbatim>\<open>autodetect\<close>, innermost first; \<open>P port baud parity\<close>
  is the call of \<^verbatim>\<open>_probe_once\<close>.
\<close>

type_synonym 'w prober = "string \<Rightarrow> int \<Rightarrow> string \<Rightarrow> 'w \<Rightarrow> bool \<times> 'w"

fun for_bauds ::
  "'w prober \<Rightarrow> string \<Rightarrow> string \<Rightarrow> int list \<Rightarrow> 'w \<Rightarrow> (string \<times> int \<times> string) option \<times> 'w" where
  "for_bauds P port parity [] w = (None, w)"
| "for_bauds P port parity (baud # bauds) w =
     (case P port baud parity w of
        (ok, w') \<Rightarrow> if ok then (Some (port, baud, parity), w') else for_bauds P port parity bauds w')"

fun for_parities ::
  "'w prober \<Rightarrow> string \<Rightarrow> string list \<Rightarrow> 'w \<Rightarrow> (string \<times> int \<times> string) option \<times> 'w" where
  "for_parities P port [] w = (None, w)"
| "for_parities P port (parity # parities) w =
     (case for_bauds P port parity COMMON_BAUDS w of
        (Some found, w') \<Rightarrow> (Some found, w')
      | (None, w') \<Rightarrow> for_parities P port parities w')"

fun for_ports ::
  "'w prober \<Rightarrow> string list \<Rightarrow> 'w \<Rightarrow> (string \<times> int \<times> string) option \<times> 'w" where
  "for_ports P [] w = (None, w)"
| "for_ports P (port # ports) w =
     (case for_parities P port COMMON_PARITIES w of
        (Some found, w') \<Rightarrow> (Some found, w')
      | (None, w') \<Rightarrow> for_ports P ports w')"

text \<open>\<^verbatim>\<open>cfg.get('probe') or cfg['registers'][0]\<close>.\<close>

definition probe_of :: "cfg \<Rightarrow> py_exc + reg" where
  "probe_of c = (case cfg_probe c of Some p \<Rightarrow> Inr p | None \<Rightarrow> getitem (cfg_registers c) 0)"

text \<open>
  \<^verbatim>\<open>autodetect\<close>, given the configuration that \<^verbatim>\<open>load_config\<close> returned and the device names
  of \<^verbatim>\<open>list_ports.comports()\<close> in the order reported.
\<close>

definition autodetect ::
  "'w rtu_ctor \<Rightarrow> cfg \<Rightarrow> string list \<Rightarrow> 'w \<Rightarrow> (py_exc + (string \<times> int \<times> string) option) \<times> 'w" where
  "autodetect RTUClient c ports w =
     (case probe_of c of
        Inl e \<Rightarrow> (Inl e, w)
      | Inr probe \<Rightarrow>
          (case for_ports
                  (\<lambda>port baud parity.
                     probe_once RTUClient port baud parity (cfg_slave_id c) (cfg_endianness c) probe)
                  ports w of
             (found, w') \<Rightarrow> (Inr found, w')))"

section \<open>The worker loop of \<^verbatim>\<open>app_gui.py\<close>\<close>

text \<open>
  The items put on the queue: \<^verbatim>\<open>("status", message)\<close> and \<^verbatim>\<open>("data", (t, values))\<close>, the
  latter without its time stamp.
\<close>

datatype event = Status string | Data "(string \<times> pyval) list"

definition connected_msg :: "string \<Rightarrow> int \<Rightarrow> string \<Rightarrow> int \<Rightarrow> string" where
  "connected_msg port baud parity slave =
     ''Connected: '' @ port @ '' '' @ str_int baud @ '' '' @ parity @ '', slave='' @ str_int slave"

definition disconnected_msg :: "py_exc \<Rightarrow> string" where
  "disconnected_msg e =
     ''Disconnected: '' @ exc_name e @ ''. Waiting for device'' @ [CHR 0xE2, CHR 0x80, CHR 0xA6]"

record 'w app =
  app_connected :: bool
  app_cli :: "'w rtu_client option"
  app_q :: "event list"
  app_regs :: "reg list"
  app_endianness :: string
  app_slave :: int

text \<open>The \<^verbatim>\<open>except Exception\<close> clause of \<^verbatim>\<open>_worker_loop\<close>.\<close>

definition on_exception :: "py_exc \<Rightarrow> 'w app \<Rightarrow> 'w app" where
  "on_exception e a =
     a\<lparr>app_connected := False, app_cli := None, app_q := app_q a @ [Status (disconnected_msg e)]\<rparr>"

text \<open>One turn of the \<^verbatim>\<open>while\<close> loop of \<^verbatim>\<open>_worker_loop\<close>.\<close>

definition worker_step :: "'w rtu_ctor \<Rightarrow> cfg \<Rightarrow> string list \<Rightarrow> 'w app \<Rightarrow> 'w \<Rightarrow> 'w app \<times> 'w" where
  "worker_step RTUClient c ports a w =
     (if \<not> app_connected a then
        (case autodetect RTUClient c ports w of
           (Inl e, w') \<Rightarrow> (on_exception e a, w')
         | (Inr None, w') \<Rightarrow> (a, w')
         | (Inr (Some (port, baud, parity)), w') \<Rightarrow>
             (case RTUClient port baud (app_slave a) parity w' of
                (Inl e, w'') \<Rightarrow> (on_exception e a, w'')
              | (Inr cli, w'') \<Rightarrow>
                  (a\<lparr>app_cli := Some cli, app_connected := True,
                     app_q := app_q a @ [Status (connected_msg port baud parity (app_slave a))]\<rparr>,
                   w'')))
      else
        (case read_all (the_client (app_cli a)) (app_regs a) (app_endianness a) w of
           (values, w') \<Rightarrow> (a\<lparr>app_q := app_q a @ [Data values]\<rparr>, w')))"

text \<open>
  The loop runs until another thread sets the stop flag; \<open>n\<close> is the number of turns taken
  before that.
\<close>

fun worker_loop ::
  "nat \<Rightarrow> 'w rtu_ctor \<Rightarrow> cfg \<Rightarrow> string list \<Rightarrow> 'w app \<Rightarrow> 'w \<Rightarrow> 'w app \<times> 'w" where
  "worker_loop 0 RTUClient c ports a w = (a, w)"
| "worker_loop (Suc n) RTUClient c ports a w =
     (case worker_step RTUClient c ports a w of
        (a', w') \<Rightarrow> worker_loop n RTUClient c ports a' w')"

section \<open>Descriptors and transports for examples\<close>

text \<open>A descriptor with the keys \<^verbatim>\<open>name\<close>, \<^verbatim>\<open>type\<close> and \<^verbatim>\<open>address\<close> only.\<close>

definition plain_reg :: "string \<Rightarrow> string \<Rightarrow> int \<Rightarrow> reg" where
  "plain_reg n t a =
     \<lparr>r_name = n, r_type = Some t, r_address = Some a, r_function = None, r_scale = None,
      r_words = None, r_map = None, r_min = None, r_max = None\<rparr>"

text \<open>
  A transport that answers every read with the words \<open>ws\<close>, one whose every call raises
  \<open>e\<close>, and one that raises \<open>e\<close> for the reads at address \<open>bad\<close> only.
\<close>

definition answering :: "int list \<Rightarrow> 'w rtu_client" where
  "answering ws =
     \<lparr>read_regs = (\<lambda>addr count fn w. (Inr ws, w)),
      write_single = (\<lambda>addr val fn w. (Inr (), w))\<rparr>"

definition raising :: "py_exc \<Rightarrow> 'w rtu_client" where
  "raising e =
     \<lparr>read_regs = (\<lambda>addr count fn w. (Inl e, w)),
      write_single = (\<lambda>addr val fn w. (Inl e, w))\<rparr>"

definition raising_at :: "int \<Rightarrow> py_exc \<Rightarrow> int list \<Rightarrow> 'w rtu_client" where
  "raising_at bad e ws =
     \<lparr>read_regs = (\<lambda>addr count fn w. if addr = bad then (Inl e, w) else (Inr ws, w)),
      write_single = (\<lambda>addr val fn w. (Inr (), w))\<rparr>"



section \<open>Notions used in the statements\<close>

text \<open>
  The state of the outside world when a pass of \<^verbatim>\<open>read_all\<close> over \<open>regs\<close>, started in \<open>w\<close>,
  reaches the descriptor at position \<open>i\<close>.
\<close>

definition world_before ::
  "'w rtu_client \<Rightarrow> string \<Rightarrow> reg list \<Rightarrow> 'w \<Rightarrow> nat \<Rightarrow> 'w" where
  "world_before cli endianness regs w i = snd (read_all_loop cli endianness (take i regs) [] w)"

text \<open>
  The number of words that \<^verbatim>\<open>read_all\<close> asks the transport for, by the type of the
  descriptor; there is none where no read is made.
\<close>

definition read_count :: "reg \<Rightarrow> int option" where
  "read_count r =
     (case r_type r of
        None \<Rightarrow> None
      | Some t \<Rightarrow>
          if t \<in> set [''uint16'', ''int16'', ''enum16'', ''bool16'', ''command16'', ''bitmask16'']
          then Some 1
          else if t = ''ascii'' then Some (case r_words r of None \<Rightarrow> 1 | Some n \<Rightarrow> n)
          else if t = ''mac48'' then Some 3
          else if t \<in> set [''uint32'', ''int32'', ''ip32''] then Some 2
          else None)"






section \<open>Decoding of single registers\<close>

subsection \<open>Arithmetic of word pairs\<close>

lemma word_pair_or:
  fixes a b :: int
  assumes "0 \<le> b" "b \<le> 0xFFFF"
  shows "push_bit 16 a OR b = a * 2 ^ 16 + b"
proof -
  have b: "take_bit 16 b = b"
    using assms by (simp add: take_bit_int_eq_self)
  have "push_bit 16 a AND take_bit 16 b = 0"
    by (rule bit_eqI) (auto simp add: bit_and_iff bit_push_bit_iff bit_take_bit_iff)
  then have "push_bit 16 a AND b = 0"
    by (simp add: b)
  then have "push_bit 16 a + b = push_bit 16 a OR b"
    by (rule disjunctive_add_eq_or)
  then show ?thesis
    by (simp add: push_bit_eq_mult)
qed

lemma sign32:
  fixes v :: int
  assumes "0 \<le> v" "v < 2 ^ 32"
  shows "(if v AND 0x80000000 \<noteq> 0 then - ((NOT v AND 0xFFFFFFFF) + 1) else v)
         = (if bit v 31 then v - 2 ^ 32 else v)"
proof -
  have m: "(0x80000000 :: int) = 2 ^ 31" by simp
  have c0: "(v AND 2 ^ 31 = 0) = (\<not> bit v 31)"
    by (rule and_exp_eq_0_iff_not_bit)
  have c: "(v AND 0x80000000 \<noteq> 0) = bit v 31"
    unfolding m using c0 by blast
  have k: "(0xFFFFFFFF :: int) = mask 32" by (simp add: mask_eq_exp_minus_1)
  have "NOT v AND 0xFFFFFFFF = take_bit 32 (NOT v)"
    unfolding k by (simp add: take_bit_eq_mask)
  also have "\<dots> = mask 32 - take_bit 32 v"
    by (rule take_bit_not_eq_mask_diff)
  also have "\<dots> = 2 ^ 32 - 1 - v"
    using assms by (simp add: take_bit_int_eq_self mask_eq_exp_minus_1)
  finally show ?thesis
    using c by simp
qed

lemma assembled_range:
  fixes a b :: int
  assumes "0 \<le> a" "a \<le> 0xFFFF" "0 \<le> b" "b \<le> 0xFFFF"
  shows "0 \<le> a * 2 ^ 16 + b" "a * 2 ^ 16 + b < 2 ^ 32"
  using assms by auto

lemma decode32_value:
  assumes "0 \<le> w0" "w0 \<le> 0xFFFF" "0 \<le> w1" "w1 \<le> 0xFFFF"
  shows "decode32 t endianness scale [w0, w1] =
     Inr (VFloat (of_int
        (let val = (if endianness = ''big'' then w0 * 2 ^ 16 + w1 else w1 * 2 ^ 16 + w0)
         in if t = ''int32'' \<and> bit val 31 then val - 2 ^ 32 else val) * scale))"
proof -
  have a: "push_bit 16 w0 OR w1 = w0 * 2 ^ 16 + w1"
    using assms by (intro word_pair_or)
  have b: "push_bit 16 w1 OR w0 = w1 * 2 ^ 16 + w0"
    using assms by (intro word_pair_or)
  have sa: "(if (w0 * 2 ^ 16 + w1) AND 0x80000000 \<noteq> 0
             then - ((NOT (w0 * 2 ^ 16 + w1) AND 0xFFFFFFFF) + 1) else w0 * 2 ^ 16 + w1)
            = (if bit (w0 * 2 ^ 16 + w1) 31 then w0 * 2 ^ 16 + w1 - 2 ^ 32 else w0 * 2 ^ 16 + w1)"
    using assms by (intro sign32 assembled_range)
  have sb: "(if (w1 * 2 ^ 16 + w0) AND 0x80000000 \<noteq> 0
             then - ((NOT (w1 * 2 ^ 16 + w0) AND 0xFFFFFFFF) + 1) else w1 * 2 ^ 16 + w0)
            = (if bit (w1 * 2 ^ 16 + w0) 31 then w1 * 2 ^ 16 + w0 - 2 ^ 32 else w1 * 2 ^ 16 + w0)"
    using assms by (intro sign32 assembled_range)
  show ?thesis
  proof (cases "endianness = ''big''")
    case True
    then show ?thesis
      using sa by (simp add: decode32_def getitem_def a Let_def split: if_splits)
  next
    case False
    then show ?thesis
      using sb by (simp add: decode32_def getitem_def b Let_def split: if_splits)
  qed
qed

subsection \<open>Signed 16-bit registers\<close>

text \<open>
  Claim C2: a descriptor of type \<^verbatim>\<open>int16\<close> reads its word as a 16-bit two's-complement
  number, so that with scale 1.0 the word \<^verbatim>\<open>0x8000\<close> decodes to -32768 and \<^verbatim>\<open>0x7FFF\<close> to
  32767. \<^verbatim>\<open>read_all\<close> does not do the first: \<^verbatim>\<open>int16\<close> takes the branch \<^verbatim>\<open>int(w) * scale\<close>
  of \<^verbatim>\<open>uint16\<close>, with no sign conversion (the \<^verbatim>\<open>int32\<close> branch has one), and the word
  \<^verbatim>\<open>0x8000\<close> decodes to 32768.
\<close>

theorem int16_word_decodes_unsigned:
  "fst (read_all (answering [0x8000]) [(plain_reg ''T'' ''int16'' 0)\<lparr>r_scale := Some 1\<rparr>] ''big'' ())
     = [(''T'', VFloat 32768)]
   \<and> fst (read_all (answering [0x7FFF]) [(plain_reg ''T'' ''int16'' 0)\<lparr>r_scale := Some 1\<rparr>] ''big'' ())
     = [(''T'', VFloat 32767)]"
  by (simp add: read_all_def read_reg_def answering_def plain_reg_def getitem_def decode16_def
      entry_of_def)

subsection \<open>MAC addresses\<close>

text \<open>
  Claim C6: a descriptor of type \<^verbatim>\<open>mac48\<close> decodes the words \<^verbatim>\<open>[0x0011, 0x2233, 0x4455]\<close> to
  \<^verbatim>\<open>"00:11:22:33:44:55"\<close>. \<^verbatim>\<open>read_all\<close> lists the three high bytes before the three low
  bytes, where \<^verbatim>\<open>words_to_ip\<close> and \<^verbatim>\<open>words_to_ascii\<close> take the two bytes of each word in
  turn, and the result is \<^verbatim>\<open>"00:22:44:11:33:55"\<close>.
\<close>

theorem mac48_bytes_out_of_order:
  "fst (read_all (answering [0x0011, 0x2233, 0x4455]) [plain_reg ''M'' ''mac48'' 0] ''big'' ())
     = [(''M'', VStr ''00:22:44:11:33:55'')]"
  by (simp add: read_all_def read_reg_def answering_def plain_reg_def words_to_mac_def
      hi_byte_def lo_byte_def hex02X_def entry_of_def)

subsection \<open>32-bit registers\<close>

text \<open>
  Claim C7: for a descriptor of type \<^verbatim>\<open>uint32\<close> or \<^verbatim>\<open>int32\<close> whose read returns the two
  16-bit words \<open>w0\<close> and \<open>w1\<close>, the value is assembled as \<open>w0 * 2^16 + w1\<close> when the
  endianness is \<^verbatim>\<open>big\<close> and as \<open>w1 * 2^16 + w0\<close> otherwise; for \<^verbatim>\<open>int32\<close>, \<open>2^32\<close> is
  subtracted when bit 31 is set; the result is multiplied by the scale.
\<close>

theorem decode32_assembles:
  assumes t: "t = ''uint32'' \<or> t = ''int32''"
    and r: "r_type r = Some t" "r_address r = Some addr"
    and rd: "read_regs cli addr 2 (case r_function r of None \<Rightarrow> 3 | Some f \<Rightarrow> f) w
               = (Inr [w0, w1], w')"
    and rng: "0 \<le> w0" "w0 \<le> 0xFFFF" "0 \<le> w1" "w1 \<le> 0xFFFF"
  shows "read_all cli [r] endianness w =
     ([(r_name r,
        VFloat (of_int
          (let val = (if endianness = ''big'' then w0 * 2 ^ 16 + w1 else w1 * 2 ^ 16 + w0)
           in if t = ''int32'' \<and> bit val 31 then val - 2 ^ 32 else val)
          * (case r_scale r of None \<Rightarrow> 1 | Some s \<Rightarrow> s)))], w')"
proof -
  have "read_reg cli r endianness w =
      (decode32 t endianness (case r_scale r of None \<Rightarrow> 1 | Some s \<Rightarrow> s) [w0, w1], w')"
    using t r rd by (auto simp add: read_reg_def)
  then show ?thesis
    using rng by (simp add: read_all_def decode32_value entry_of_def)
qed

theorem decode32_assembles_witness:
  "read_all (answering [0x0001, 0x0000]) [plain_reg ''X'' ''int32'' 0] ''big'' ()
     = ([(''X'', VFloat 65536)], ())
   \<and> read_all (answering [0x0001, 0x0000]) [plain_reg ''X'' ''int32'' 0] ''little'' ()
     = ([(''X'', VFloat 1)], ())
   \<and> read_all (answering [0xFFFF, 0xFFFF]) [plain_reg ''X'' ''int32'' 0] ''big'' ()
     = ([(''X'', VFloat (- 1))], ())"
  using decode32_assembles [of "''int32''" "plain_reg ''X'' ''int32'' 0" 0
      "answering [1, 0]" "()" 1 0 "()" "''big''"]
    decode32_assembles [of "''int32''" "plain_reg ''X'' ''int32'' 0" 0
      "answering [1, 0]" "()" 1 0 "()" "''little''"]
    decode32_assembles [of "''int32''" "plain_reg ''X'' ''int32'' 0" 0
      "answering [0xFFFF, 0xFFFF]" "()" "0xFFFF" "0xFFFF" "()" "''big''"]
  by (simp add: plain_reg_def answering_def bit_iff_odd)

section \<open>One pass of \<^verbatim>\<open>read_all\<close>\<close>

subsection \<open>The output dictionary\<close>

lemma dict_set_keys:
  "map fst (dict_set d k v) = (if k \<in> set (map fst d) then map fst d else map fst d @ [k])"
  by (induction d) (auto simp add: rev_image_eqI)

lemma dict_get_set:
  "dict_get (dict_set d k v) k' = (if k' = k then Some v else dict_get d k')"
  by (induction d) (auto simp add: dict_get_def)

lemma remdups_drop_earlier:
  "x \<in> set ys \<Longrightarrow> remdups (xs @ x # ys) = remdups (xs @ ys)"
  by (induction xs) auto

lemma loop_keys:
  "map fst (fst (read_all_loop cli e rs out w))
     = rev (remdups (rev (map fst out @ map r_name rs)))" if "distinct (map fst out)"
  using that
proof (induction rs arbitrary: out w)
  case Nil
  then show ?case by (simp add: distinct_remdups_id)
next
  case (Cons r rs)
  obtain res w' where step: "read_reg cli r e w = (res, w')"
    by (cases "read_reg cli r e w")
  let ?out = "dict_set out (r_name r) (entry_of res)"
  have d: "distinct (map fst ?out)"
    using Cons.prems by (simp add: dict_set_keys)
  have "map fst (fst (read_all_loop cli e (r # rs) out w))
          = rev (remdups (rev (map fst ?out @ map r_name rs)))"
    using Cons.IH [OF d] by (simp add: step)
  also have "\<dots> = rev (remdups (rev (map fst out @ map r_name (r # rs))))"
    by (simp add: dict_set_keys remdups_drop_earlier)
  finally show ?case .
qed

lemma loop_append:
  "read_all_loop cli e (xs @ ys) out w =
     (case read_all_loop cli e xs out w of (out', w') \<Rightarrow> read_all_loop cli e ys out' w')"
  by (induction xs arbitrary: out w) (auto split: prod.splits)

lemma loop_get_other:
  "k \<notin> set (map r_name rs) \<Longrightarrow>
     dict_get (fst (read_all_loop cli e rs out w)) k = dict_get out k"
  by (induction rs arbitrary: out w) (auto simp add: dict_get_set split: prod.splits)

subsection \<open>The entry of each descriptor\<close>

lemma read_all_entry:
  assumes i: "i < length regs"
    and later: "r_name (regs ! i) \<notin> set (map r_name (drop (Suc i) regs))"
  shows "dict_get (fst (read_all cli regs e w)) (r_name (regs ! i))
     = Some (entry_of (fst (read_reg cli (regs ! i) e (world_before cli e regs w i))))"
proof -
  obtain out1 w1 where pre: "read_all_loop cli e (take i regs) [] w = (out1, w1)"
    by (cases "read_all_loop cli e (take i regs) [] w")
  obtain res w2 where step: "read_reg cli (regs ! i) e w1 = (res, w2)"
    by (cases "read_reg cli (regs ! i) e w1")
  have split: "regs = take i regs @ regs ! i # drop (Suc i) regs"
    using i by (rule id_take_nth_drop)
  have "read_all cli regs e w
          = read_all_loop cli e (take i regs @ regs ! i # drop (Suc i) regs) [] w"
    using split by (simp add: read_all_def)
  also have "\<dots> = read_all_loop cli e (drop (Suc i) regs)
                     (dict_set out1 (r_name (regs ! i)) (entry_of res)) w2"
    by (simp add: loop_append pre step)
  finally have "dict_get (fst (read_all cli regs e w)) (r_name (regs ! i))
                  = dict_get (dict_set out1 (r_name (regs ! i)) (entry_of res)) (r_name (regs ! i))"
    using later by (simp add: loop_get_other)
  then show ?thesis
    by (simp add: dict_get_set world_before_def pre step)
qed

lemma distinct_later:
  assumes "distinct (map r_name regs)" "i < length regs"
  shows "r_name (regs ! i) \<notin> set (map r_name (drop (Suc i) regs))"
proof -
  have "regs = take i regs @ regs ! i # drop (Suc i) regs"
    using assms(2) by (rule id_take_nth_drop)
  then have "distinct (map r_name (take i regs @ regs ! i # drop (Suc i) regs))"
    using assms(1) by simp
  then show ?thesis
    by simp
qed

lemma read_reg_raises:
  assumes "r_address r = Some addr" "read_count r = Some n"
    and "read_regs cli addr n (case r_function r of None \<Rightarrow> 3 | Some f \<Rightarrow> f) w = (Inl ex, w')"
  shows "read_reg cli r e w = (Inl ex, w')"
  using assms
  by (auto simp add: read_reg_def read_count_def split: option.splits if_splits)

section \<open>The scan as a search in the list of candidates\<close>









section \<open>Isolation of failures in a pass\<close>

text \<open>
  Claim C1: when the transport raises an exception on the read of one register,
  \<^verbatim>\<open>read_all\<close> catches it in the turn of the loop for that register and stores the marker
  \<^verbatim>\<open>'ERR:<class>'\<close> under the name of that register; the pass goes on, and the entry of
  every register in the mapping returned is the outcome of its own read and decoding
  (for every name that no later descriptor of the list bears as well). \<^verbatim>\<open>read_all\<close> returns
  a mapping with every name of the list as a key, whatever the transport does.
\<close>

theorem read_all_isolates_failure:
  assumes i: "i < length regs"
    and addr: "r_address (regs ! i) = Some addr"
    and cnt: "read_count (regs ! i) = Some n"
    and fail: "read_regs cli addr n (case r_function (regs ! i) of None \<Rightarrow> 3 | Some f \<Rightarrow> f)
                 (world_before cli endianness regs w i) = (Inl ex, w')"
  shows "(\<forall>out. read_all_loop cli endianness [regs ! i] out (world_before cli endianness regs w i)
              = (dict_set out (r_name (regs ! i)) (VStr (''ERR:'' @ exc_name ex)), w'))
     \<and> (\<forall>j < length regs. r_name (regs ! j) \<notin> set (map r_name (drop (Suc j) regs)) \<longrightarrow>
           dict_get (fst (read_all cli regs endianness w)) (r_name (regs ! j))
             = Some (entry_of (fst (read_reg cli (regs ! j) endianness
                                     (world_before cli endianness regs w j)))))
     \<and> (r_name (regs ! i) \<notin> set (map r_name (drop (Suc i) regs)) \<longrightarrow>
           dict_get (fst (read_all cli regs endianness w)) (r_name (regs ! i))
             = Some (VStr (''ERR:'' @ exc_name ex)))
     \<and> set (map fst (fst (read_all cli regs endianness w))) = set (map r_name regs)"
proof -
  have raised: "read_reg cli (regs ! i) endianness (world_before cli endianness regs w i) = (Inl ex, w')"
    using addr cnt fail by (rule read_reg_raises)
  have a: "\<forall>out. read_all_loop cli endianness [regs ! i] out (world_before cli endianness regs w i)
              = (dict_set out (r_name (regs ! i)) (VStr (''ERR:'' @ exc_name ex)), w')"
    by (simp add: raised entry_of_def err_marker_def)
  have b: "\<forall>j < length regs. r_name (regs ! j) \<notin> set (map r_name (drop (Suc j) regs)) \<longrightarrow>
           dict_get (fst (read_all cli regs endianness w)) (r_name (regs ! j))
             = Some (entry_of (fst (read_reg cli (regs ! j) endianness
                                     (world_before cli endianness regs w j))))"
    by (simp add: read_all_entry)
  have c: "r_name (regs ! i) \<notin> set (map r_name (drop (Suc i) regs)) \<longrightarrow>
           dict_get (fst (read_all cli regs endianness w)) (r_name (regs ! i))
             = Some (VStr (''ERR:'' @ exc_name ex))"
    using i by (simp add: read_all_entry raised entry_of_def err_marker_def)
  have "map fst (fst (read_all cli regs endianness w)) = rev (remdups (rev (map r_name regs)))"
    using loop_keys [of "[]" cli endianness regs w] by (simp add: read_all_def)
  then have d: "set (map fst (fst (read_all cli regs endianness w))) = set (map r_name regs)"
    by simp
  show ?thesis
    using a b c d by blast
qed

theorem read_all_isolates_failure_witness:
  "dict_get (fst (read_all (raising_at 10 (Exc ''SerialException'') [7])
                     [plain_reg ''A'' ''uint16'' 10, plain_reg ''B'' ''uint16'' 11] ''big'' ())) ''A''
     = Some (VStr ''ERR:SerialException'')
   \<and> dict_get (fst (read_all (raising_at 10 (Exc ''SerialException'') [7])
                     [plain_reg ''A'' ''uint16'' 10, plain_reg ''B'' ''uint16'' 11] ''big'' ())) ''B''
     = Some (VFloat 7)"
  using read_all_isolates_failure [of 0 "[plain_reg ''A'' ''uint16'' 10, plain_reg ''B'' ''uint16'' 11]"
      10 1 "raising_at 10 (Exc ''SerialException'') [7]" "''big''" "()" "Exc ''SerialException''" "()"]
  by (simp add: plain_reg_def raising_at_def read_count_def world_before_def read_all_def
      read_reg_def getitem_def decode16_def entry_of_def err_marker_def dict_get_def)

section \<open>The keys of the mapping\<close>

text \<open>
  Claim C4 says that the mapping returned by \<^verbatim>\<open>read_all\<close> has exactly one entry for each
  descriptor, also for a list with duplicate descriptors. The mapping is a dictionary
  keyed by name, so two descriptors with the same name share one entry: a list of two
  equal descriptors gives a mapping with one entry.
\<close>

theorem duplicate_descriptors_share_an_entry:
  "fst (read_all (answering [5]) [plain_reg ''A'' ''uint16'' 0, plain_reg ''A'' ''uint16'' 0]
          ''big'' ())
     = [(''A'', VFloat 5)]
   \<and> length (fst (read_all (answering [5])
                    [plain_reg ''A'' ''uint16'' 0, plain_reg ''A'' ''uint16'' 0] ''big'' ()))
     \<noteq> length [plain_reg ''A'' ''uint16'' 0, plain_reg ''A'' ''uint16'' 0]"
  by (simp add: read_all_def read_reg_def answering_def plain_reg_def getitem_def decode16_def
      entry_of_def)

text \<open>
  Claim C4, amended: the keys of the mapping returned by \<^verbatim>\<open>read_all\<close> are the names of the
  descriptors, each once, in the order in which the names first occur in the list, whatever
  the transport does (a failed decode never omits the key). When the names of the list are
  distinct, the mapping has exactly one entry for each descriptor, in the order of the list.
\<close>

theorem read_all_keys:
  "map fst (fst (read_all cli regs endianness w)) = rev (remdups (rev (map r_name regs)))
   \<and> set (map fst (fst (read_all cli regs endianness w))) = set (map r_name regs)
   \<and> distinct (map fst (fst (read_all cli regs endianness w)))
   \<and> (distinct (map r_name regs) \<longrightarrow>
        map fst (fst (read_all cli regs endianness w)) = map r_name regs
        \<and> length (fst (read_all cli regs endianness w)) = length regs)"
proof -
  have k: "map fst (fst (read_all cli regs endianness w)) = rev (remdups (rev (map r_name regs)))"
    using loop_keys [of "[]" cli endianness regs w] by (simp add: read_all_def)
  have l: "length (fst (read_all cli regs endianness w))
             = length (map fst (fst (read_all cli regs endianness w)))"
    by simp
  show ?thesis
    unfolding l unfolding k by (simp add: distinct_remdups_id)
qed

theorem read_all_keys_witness:
  "map fst (fst (read_all (raising_at 10 (Exc ''SerialException'') [7])
                   [plain_reg ''A'' ''uint16'' 10, plain_reg ''B'' ''uint16'' 11] ''big'' ()))
     = [''A'', ''B'']"
  using read_all_keys [of "raising_at 10 (Exc ''SerialException'') [7]"
      "[plain_reg ''A'' ''uint16'' 10, plain_reg ''B'' ''uint16'' 11]" "''big''" "()"]
  by (simp add: plain_reg_def)

section \<open>The first candidate that answers\<close>



section \<open>Clamping on the write path\<close>




section \<open>Encoding and decoding again\<close>






section \<open>A pass over a dead line\<close>

lemma connected_pass:
  assumes "app_connected a"
  shows "worker_step RTUClient c ports a w =
     (a\<lparr>app_q := app_q a @ [Data (fst (read_all (the_client (app_cli a)) (app_regs a)
                                          (app_endianness a) w))]\<rparr>,
      snd (read_all (the_client (app_cli a)) (app_regs a) (app_endianness a) w))"
  using assms by (simp add: worker_step_def split: prod.splits)

lemma worker_loop_stays_connected:
  "app_connected a \<Longrightarrow> app_connected (fst (worker_loop n RTUClient c ports a w))"
proof (induction n arbitrary: a w)
  case 0
  then show ?case by simp
next
  case (Suc n)
  then show ?case
    by (simp add: connected_pass)
qed

text \<open>
  Claim C5: when a pass of the connected worker meets an exception of the transport itself,
  the loop drops the client, becomes disconnected and puts a status event with the reason
  on the queue. \<^verbatim>\<open>_worker_loop\<close> has an \<^verbatim>\<open>except\<close> clause that does this, but
  \<^verbatim>\<open>read_all\<close> catches every exception of every read itself: on a line whose every read
  raises \<^verbatim>\<open>SerialException\<close> the pass returns a mapping of error markers, the worker puts
  it on the queue as a data event and stays connected.
\<close>

theorem worker_stays_connected_on_transport_failure:
  "app_connected (fst (worker_step RTUClient c ports
       \<lparr>app_connected = True, app_cli = Some (raising (Exc ''SerialException'')), app_q = [],
        app_regs = [plain_reg ''A'' ''uint16'' 0], app_endianness = ''big'', app_slave = 1\<rparr> w))
   \<and> app_q (fst (worker_step RTUClient c ports
       \<lparr>app_connected = True, app_cli = Some (raising (Exc ''SerialException'')), app_q = [],
        app_regs = [plain_reg ''A'' ''uint16'' 0], app_endianness = ''big'', app_slave = 1\<rparr> w))
     = [Data [(''A'', VStr ''ERR:SerialException'')]]"
  by (simp add: worker_step_def the_client_def raising_def read_all_def read_reg_def plain_reg_def
      entry_of_def err_marker_def)

section \<open>The two acquisition functions\<close>

text \<open>
  On descriptors of every type but \<^verbatim>\<open>bitmask16\<close> and \<^verbatim>\<open>mac48\<close>, the acquisition function
  of \<^verbatim>\<open>app.py\<close> and that of \<^verbatim>\<open>modbus_client.py\<close> return the same mapping and leave the
  world in the same state.
\<close>

lemma app_decode16_agrees:
  "t \<noteq> ''bitmask16'' \<Longrightarrow> app_decode16 t r s x = decode16 t r s x"
  by (auto simp add: app_decode16_def decode16_def)

lemma app_read_reg_agrees:
  assumes "r_type r \<noteq> Some ''bitmask16''" "r_type r \<noteq> Some ''mac48''"
  shows "app_read_reg cli r e w = read_reg cli r e w"
proof (cases "r_type r")
  case None
  then show ?thesis
    by (simp add: app_read_reg_def read_reg_def)
next
  case (Some t)
  then have t: "t \<noteq> ''bitmask16''" "t \<noteq> ''mac48''"
    using assms by auto
  show ?thesis
  proof (cases "r_address r")
    case None
    then show ?thesis
      using Some by (simp add: app_read_reg_def read_reg_def)
  next
    case (Some addr)
    consider (w16) "t \<in> set [''uint16'', ''int16'', ''enum16'', ''bool16'', ''command16'']"
      | (ascii) "t = ''ascii''"
      | (w32) "t \<in> set [''uint32'', ''int32'', ''ip32'']"
      | (other) "t \<notin> set [''uint16'', ''int16'', ''enum16'', ''bool16'', ''command16'',
                           ''ascii'', ''uint32'', ''int32'', ''ip32'']"
      by auto
    then show ?thesis
    proof cases
      case w16
      then show ?thesis
        using \<open>r_type r = Some t\<close> Some t
        by (simp add: app_read_reg_def read_reg_def app_decode16_agrees
            split: prod.splits sum.splits)
    next
      case ascii
      then show ?thesis
        using \<open>r_type r = Some t\<close> Some by (simp add: app_read_reg_def read_reg_def)
    next
      case w32
      then consider "t = ''uint32''" | "t = ''int32''" | "t = ''ip32''"
        by auto
      then show ?thesis
      proof cases
        case 1
        then show ?thesis
          using \<open>r_type r = Some t\<close> Some
          by (simp add: app_read_reg_def read_reg_def split: prod.splits sum.splits)
      next
        case 2
        then show ?thesis
          using \<open>r_type r = Some t\<close> Some
          by (simp add: app_read_reg_def read_reg_def split: prod.splits sum.splits)
      next
        case 3
        then show ?thesis
          using \<open>r_type r = Some t\<close> Some
          by (simp add: app_read_reg_def read_reg_def split: prod.splits sum.splits)
      qed
    next
      case other
      then show ?thesis
        using \<open>r_type r = Some t\<close> Some t by (simp add: app_read_reg_def read_reg_def)
    qed
  qed
qed

lemma app_read_all_loop_agrees:
  "\<forall>r \<in> set regs. r_type r \<noteq> Some ''bitmask16'' \<and> r_type r \<noteq> Some ''mac48'' \<Longrightarrow>
     app_read_all_loop cli e regs out w = read_all_loop cli e regs out w"
  by (induction regs arbitrary: out w) (simp_all add: app_read_reg_agrees split: prod.splits)

lemma app_read_all_agrees:
  "\<forall>r \<in> set regs. r_type r \<noteq> Some ''bitmask16'' \<and> r_type r \<noteq> Some ''mac48'' \<Longrightarrow>
     app_read_all cli regs e w = read_all cli regs e w"
  by (simp add: app_read_all_def read_all_def app_read_all_loop_agrees)

text \<open>
  Claim C10: the function \<^verbatim>\<open>read_all\<close> of \<^verbatim>\<open>app.py\<close> and the function \<^verbatim>\<open>read_all\<close> of
  \<^verbatim>\<open>modbus_client.py\<close> return the same mapping for every register list, endianness and
  transport, in particular for descriptors of type \<^verbatim>\<open>bitmask16\<close> and \<^verbatim>\<open>mac48\<close>. The copy in
  \<^verbatim>\<open>app.py\<close> has no branch for these two types and stores \<^verbatim>\<open>'UNSUPPORTED'\<close> where
  \<^verbatim>\<open>modbus_client.py\<close> stores the address or the list of flags.
\<close>

theorem app_read_all_lacks_types:
  "fst (app_read_all (answering [0x0011, 0x2233, 0x4455]) [plain_reg ''M'' ''mac48'' 0] ''big'' ())
     = [(''M'', VStr ''UNSUPPORTED'')]
   \<and> fst (read_all (answering [0x0011, 0x2233, 0x4455]) [plain_reg ''M'' ''mac48'' 0] ''big'' ())
     = [(''M'', VStr ''00:22:44:11:33:55'')]
   \<and> fst (app_read_all (answering [3])
            [(plain_reg ''S'' ''bitmask16'' 0)\<lparr>r_map := Some [(''1'', ''RUNNING''), (''2'', ''FAULT'')]\<rparr>]
            ''big'' ())
     = [(''S'', VStr ''UNSUPPORTED'')]
   \<and> fst (read_all (answering [3])
            [(plain_reg ''S'' ''bitmask16'' 0)\<lparr>r_map := Some [(''1'', ''RUNNING''), (''2'', ''FAULT'')]\<rparr>]
            ''big'' ())
     = [(''S'', VList [''RUNNING'', ''FAULT''])]"
  by (simp add: app_read_all_def app_read_reg_def read_all_def read_reg_def answering_def
      plain_reg_def words_to_mac_def hi_byte_def lo_byte_def hex02X_def entry_of_def getitem_def
      decode16_def py_int_def strip_def is_space_def is_digit_def)

end
